theory Spec2Isabelle
  imports Complex_Main "HOL-Library.Char_ord" "HOL-Library.List_Lexorder"
    "HOL-Library.Product_Lexorder" "HOL-Library.Multiset"
begin

section \<open>Numeric constants\<close>

text \<open>
  Python floats are modelled as exact real numbers: rounding is not represented.
  \<open>EPS = 1e-9\<close>, \<open>INF = 1e18\<close> (named \<open>INF_val\<close>: \<open>INF\<close> is HOL syntax).
\<close>

definition EPS :: real where
  "EPS = 1 / 1000000000"

definition INF_val :: real where
  "INF_val = 1000000000000000000"

section \<open>The residual graph (class Dinic)\<close>

text \<open>
  \<open>Dinic.Edge\<close> has the slots \<open>to\<close>, \<open>rev\<close>, \<open>cap\<close>, \<open>flow\<close>. The object \<open>self.adj\<close> is a list
  of adjacency lists; \<open>self.n\<close> is its length. Mutation of an edge in place is a list update.
\<close>

record edge =
  e_to :: nat
  e_rev :: nat
  e_cap :: real
  e_flow :: real

type_synonym graph = "edge list list"

definition new_edge :: "nat \<Rightarrow> nat \<Rightarrow> real \<Rightarrow> edge" where
  "new_edge v r c = \<lparr>e_to = v, e_rev = r, e_cap = c, e_flow = 0\<rparr>"

definition dinic_init :: "nat \<Rightarrow> graph" where
  "dinic_init n = replicate n []"

definition add_edge :: "graph \<Rightarrow> nat \<Rightarrow> nat \<Rightarrow> real \<Rightarrow> graph" where
  "add_edge adj u v c =
     (let a = new_edge v (length (adj ! v)) c;
          b = new_edge u (length (adj ! u)) 0;
          adj1 = adj[u := adj ! u @ [a]]
      in adj1[v := adj1 ! v @ [b]])"

definition residual :: "edge \<Rightarrow> real" where
  "residual e = e_cap e - e_flow e"

subsection \<open>bfs_level\<close>

text \<open>
  The body of \<open>for e in self.adj[u]\<close> of \<open>bfs_level\<close>, on the pair (level, queue).
  The loops of the class are recursive functions into \<open>option\<close>: \<open>None\<close> is a loop
  that does not return.
\<close>

definition bfs_visit :: "nat \<Rightarrow> edge \<Rightarrow> int list \<times> nat list \<Rightarrow> int list \<times> nat list" where
  "bfs_visit u e = (\<lambda>(level, q).
     if level ! e_to e < 0 \<and> residual e > EPS
     then (level[e_to e := level ! u + 1], q @ [e_to e])
     else (level, q))"

partial_function (option) bfs_loop :: "graph \<Rightarrow> int list \<Rightarrow> nat list \<Rightarrow> int list option" where
  "bfs_loop adj level q =
     (case q of
        [] \<Rightarrow> Some level
      | u # q' \<Rightarrow>
          (case fold (bfs_visit u) (adj ! u) (level, q') of
             (level', q'') \<Rightarrow> bfs_loop adj level' q''))"

declare bfs_loop.simps [code]

definition bfs_level :: "graph \<Rightarrow> nat \<Rightarrow> nat \<Rightarrow> int list option" where
  "bfs_level adj s t = bfs_loop adj ((replicate (length adj) (- 1))[s := 0]) [s]"

subsection \<open>dfs_flow\<close>

text \<open>
  \<open>e.flow += to_push; self.adj[e.to][e.rev].flow -= to_push\<close> for the edge \<open>e = adj[u][i]\<close>.
\<close>

definition push_flow :: "graph \<Rightarrow> nat \<Rightarrow> nat \<Rightarrow> real \<Rightarrow> graph" where
  "push_flow adj u i f =
     (let e = adj ! u ! i;
          adj1 = adj[u := (adj ! u)[i := e\<lparr>e_flow := e_flow e + f\<rparr>]];
          r = adj1 ! e_to e ! e_rev e
      in adj1[e_to e := (adj1 ! e_to e)[e_rev e := r\<lparr>e_flow := e_flow r - f\<rparr>]])"

text \<open>
  \<open>dfs_loop\<close> is the \<open>while i < len(adj_u)\<close> loop of a call \<open>dfs_flow(u, ...)\<close> with
  \<open>u \<noteq> t\<close>, from index \<open>i\<close>; the recursive call \<open>dfs_flow(e.to, ...)\<close> is its first line
  (\<open>if u == t: return pushed\<close>) followed by the loop at \<open>e.to\<close>. The result is the graph,
  the resume pointers \<open>it\<close> and the returned amount.
\<close>

partial_function (option) dfs_loop ::
  "graph \<Rightarrow> nat \<Rightarrow> nat \<Rightarrow> real \<Rightarrow> int list \<Rightarrow> nat list \<Rightarrow> nat \<Rightarrow> (graph \<times> nat list \<times> real) option" where
  "dfs_loop adj u t pushed level it i =
     (if i < length (adj ! u) then
        (let e = adj ! u ! i in
         if residual e > EPS \<and> level ! e_to e = level ! u + 1 then
           Option.bind
             (if e_to e = t then Some (adj, it, min pushed (residual e))
              else dfs_loop adj (e_to e) t (min pushed (residual e)) level it (it ! e_to e))
             (\<lambda>(adj', it', to_push).
                if to_push > EPS then Some (push_flow adj' u i to_push, it'[u := i], to_push)
                else dfs_loop adj' u t pushed level (it'[u := i + 1]) (i + 1))
         else dfs_loop adj u t pushed level (it[u := i + 1]) (i + 1))
      else Some (adj, it, 0))"

declare dfs_loop.simps [code]

definition dfs_flow ::
  "graph \<Rightarrow> nat \<Rightarrow> nat \<Rightarrow> real \<Rightarrow> int list \<Rightarrow> nat list \<Rightarrow> (graph \<times> nat list \<times> real) option" where
  "dfs_flow adj u t pushed level it =
     (if u = t then Some (adj, it, pushed) else dfs_loop adj u t pushed level it (it ! u))"

subsection \<open>max_flow\<close>

text \<open>
  The inner \<open>while True\<close> of \<open>max_flow\<close>: the result holds the graph, the flow so far and
  whether the loop left through \<open>return flow\<close> (True) or through \<open>break\<close> (False).
\<close>

partial_function (option) blocking_loop ::
  "graph \<Rightarrow> nat \<Rightarrow> nat \<Rightarrow> real \<Rightarrow> int list \<Rightarrow> nat list \<Rightarrow> real \<Rightarrow> (graph \<times> real \<times> bool) option" where
  "blocking_loop adj s t limit level it fl =
     Option.bind (dfs_flow adj s t (limit - fl) level it)
       (\<lambda>(adj', it', pushed).
          if pushed \<le> EPS then Some (adj', fl, False)
          else if fl + pushed + EPS \<ge> limit then Some (adj', fl + pushed, True)
          else blocking_loop adj' s t limit level it' (fl + pushed))"

declare blocking_loop.simps [code]

partial_function (option) max_flow_loop ::
  "graph \<Rightarrow> nat \<Rightarrow> nat \<Rightarrow> real \<Rightarrow> real \<Rightarrow> (graph \<times> real) option" where
  "max_flow_loop adj s t limit fl =
     Option.bind (bfs_level adj s t)
       (\<lambda>level.
          if level ! t < 0 then Some (adj, fl)
          else Option.bind (blocking_loop adj s t limit level (replicate (length adj) 0) fl)
            (\<lambda>(adj', fl', returned).
               if returned then Some (adj', fl')
               else max_flow_loop adj' s t limit fl'))"

declare max_flow_loop.simps [code]

definition max_flow :: "graph \<Rightarrow> nat \<Rightarrow> nat \<Rightarrow> real \<Rightarrow> (graph \<times> real) option" where
  "max_flow adj s t limit = max_flow_loop adj s t limit 0"

subsection \<open>reachable_from\<close>

definition reach_visit :: "edge \<Rightarrow> bool list \<times> nat list \<Rightarrow> bool list \<times> nat list" where
  "reach_visit e = (\<lambda>(vis, q).
     if \<not> vis ! e_to e \<and> residual e > EPS
     then (vis[e_to e := True], q @ [e_to e])
     else (vis, q))"

partial_function (option) reach_loop :: "graph \<Rightarrow> bool list \<Rightarrow> nat list \<Rightarrow> bool list option" where
  "reach_loop adj vis q =
     (case q of
        [] \<Rightarrow> Some vis
      | u # q' \<Rightarrow>
          (case fold reach_visit (adj ! u) (vis, q') of
             (vis', q'') \<Rightarrow> reach_loop adj vis' q''))"

declare reach_loop.simps [code]

definition reachable_from :: "graph \<Rightarrow> nat \<Rightarrow> bool list option" where
  "reachable_from adj s = reach_loop adj ((replicate (length adj) False)[s := True]) [s]"

section \<open>run_belts\<close>

text \<open>
  The parsed request. An edge is a dict with the keys \<open>from\<close>, \<open>to\<close> and the optional
  keys \<open>lo\<close>, \<open>hi\<close>; \<open>sources\<close> and \<open>node_caps\<close> are dicts, given by their items (a key
  that occurs twice counts once, with its first value); a missing \<open>nodes\<close>, \<open>edges\<close>,
  \<open>sources\<close> or \<open>node_caps\<close> is the empty list; a missing \<open>sink\<close> is \<open>None\<close>.
\<close>

record belt =
  b_from :: string
  b_to :: string
  b_lo :: "real option"
  b_hi :: "real option"

record belts_input =
  nodes_in :: "string list"
  edges_in :: "belt list"
  sources :: "(string \<times> real) list"
  sink :: "string option"
  node_caps :: "(string \<times> real) list"

text \<open>An entry of \<open>edge_map\<close>.\<close>

record edge_rec =
  rec_from :: string
  rec_to :: string
  rec_lo :: real
  rec_hi :: real
  u_out :: nat
  v_in :: nat

text \<open>
  The result object: \<open>Error message\<close>, \<open>Ok max_flow_per_min flows\<close> or
  \<open>Infeasible cut_reachable demand_balance tight_nodes tight_edges\<close>; an entry of
  \<open>flows\<close> is (from, to, flow), an entry of \<open>tight_edges\<close> is (from, to, flow_needed).
\<close>

datatype result =
  Error string
| Ok real "(string \<times> string \<times> real) list"
| Infeasible "string list" real "string list" "(string \<times> string \<times> real) list"

text \<open>The state of the builder while the user edges are added.\<close>

record builder =
  bs_graph :: graph
  bs_edge_map :: "edge_rec list"
  bs_demand :: "string \<Rightarrow> real"

definition lo_of :: "belt \<Rightarrow> real" where
  "lo_of e = (case b_lo e of None \<Rightarrow> 0 | Some x \<Rightarrow> x)"

definition hi_of :: "belt \<Rightarrow> real" where
  "hi_of e = (case b_hi e of None \<Rightarrow> INF_val | Some x \<Rightarrow> x)"

definition edge_sort_key :: "belt \<Rightarrow> string \<times> string \<times> real \<times> real" where
  "edge_sort_key e = (b_from e, b_to e, lo_of e, hi_of e)"

definition node_list :: "belts_input \<Rightarrow> string \<Rightarrow> string list" where
  "node_list d sk =
     sort (remdups (nodes_in d @ concat (map (\<lambda>e. [b_from e, b_to e]) (edges_in d))
                    @ map fst (sources d) @ [sk]))"

definition orig_to_indices :: "string list \<Rightarrow> string \<rightharpoonup> nat \<times> nat" where
  "orig_to_indices nodes = map_of (zip nodes (map (\<lambda>k. (2 * k, 2 * k + 1)) [0..<length nodes]))"

definition in_idx :: "(string \<rightharpoonup> nat \<times> nat) \<Rightarrow> string \<Rightarrow> nat" where
  "in_idx oti v = fst (the (oti v))"

definition out_idx :: "(string \<rightharpoonup> nat \<times> nat) \<Rightarrow> string \<Rightarrow> nat" where
  "out_idx oti v = snd (the (oti v))"

definition node_cap :: "(string \<times> real) list \<Rightarrow> string \<Rightarrow> real" where
  "node_cap caps v = (case map_of caps v of Some c \<Rightarrow> c | None \<Rightarrow> INF_val)"

definition add_node_edge ::
  "(string \<rightharpoonup> nat \<times> nat) \<Rightarrow> (string \<times> real) list \<Rightarrow> string \<Rightarrow> graph \<Rightarrow> graph" where
  "add_node_edge oti caps v G = add_edge G (in_idx oti v) (out_idx oti v) (node_cap caps v)"

text \<open>The body of \<open>for e in sorted(edges_in, key=edge_sort_key)\<close>; \<open>Inl\<close> is the early return.\<close>

definition add_user_edge :: "(string \<rightharpoonup> nat \<times> nat) \<Rightarrow> belt \<Rightarrow> builder \<Rightarrow> string + builder" where
  "add_user_edge oti e st =
     (let u = b_from e; v = b_to e; lo = lo_of e; hi = hi_of e in
      if hi + EPS < lo then Inl (''edge hi < lo for '' @ u @ ''->'' @ v)
      else
        (let c = max 0 (hi - lo);
             uo = out_idx oti u;
             vi = in_idx oti v;
             d1 = (bs_demand st)(u := bs_demand st u - lo)
         in Inr \<lparr>bs_graph = add_edge (bs_graph st) uo vi c,
                 bs_edge_map = bs_edge_map st @
                   [\<lparr>rec_from = u, rec_to = v, rec_lo = lo, rec_hi = hi, u_out = uo, v_in = vi\<rparr>],
                 bs_demand = d1(v := d1 v + lo)\<rparr>))"

fun add_user_edges :: "(string \<rightharpoonup> nat \<times> nat) \<Rightarrow> belt list \<Rightarrow> builder \<Rightarrow> string + builder" where
  "add_user_edges oti [] st = Inr st"
| "add_user_edges oti (e # es) st =
     (case add_user_edge oti e st of
        Inl m \<Rightarrow> Inl m
      | Inr st' \<Rightarrow> add_user_edges oti es st')"

text \<open>The body of \<open>for s in sorted(sources.keys())\<close>, on (total_supply, demand).\<close>

definition add_supply ::
  "(string \<times> real) list \<Rightarrow> string \<Rightarrow> real \<times> (string \<Rightarrow> real) \<Rightarrow> real \<times> (string \<Rightarrow> real)" where
  "add_supply srcs s = (\<lambda>(total, demand).
     (let supply = the (map_of srcs s) in (total + supply, demand(s := demand s - supply))))"

text \<open>The body of the loop that connects \<open>s*\<close> and \<open>t*\<close>, on (G, sum_pos_demands).\<close>

definition connect_node ::
  "(string \<rightharpoonup> nat \<times> nat) \<Rightarrow> nat \<Rightarrow> nat \<Rightarrow> (string \<Rightarrow> real) \<Rightarrow> string \<Rightarrow> graph \<times> real \<Rightarrow> graph \<times> real" where
  "connect_node oti sstar tstar demand v = (\<lambda>(G, sum_pos).
     (let d = demand v in
      if d > EPS then (add_edge G sstar (in_idx oti v) d, sum_pos + d)
      else if d < - EPS then (add_edge G (out_idx oti v) tstar (- d), sum_pos)
      else (G, sum_pos)))"

text \<open>
  \<open>for e in G.adj[u_out]: if e.to == v_in: ...; break\<close>: the first edge of the adjacency
  list of \<open>u_out\<close> that points to \<open>v_in\<close>.
\<close>

definition first_edge_to :: "graph \<Rightarrow> nat \<Rightarrow> nat \<Rightarrow> edge option" where
  "first_edge_to G uo vi = find (\<lambda>e. e_to e = vi) (G ! uo)"

definition tight_node :: "graph \<Rightarrow> (string \<rightharpoonup> nat \<times> nat) \<Rightarrow> bool list \<Rightarrow> string \<Rightarrow> bool" where
  "tight_node G oti reachable v =
     (let vi = in_idx oti v in
      if length (G ! vi) = 0 then False
      else (let e = G ! vi ! 0 in reachable ! vi \<and> \<bar>e_cap e - e_flow e\<bar> \<le> 1 / 1000000))"

definition tight_edge :: "graph \<Rightarrow> bool list \<Rightarrow> edge_rec \<Rightarrow> bool" where
  "tight_edge G reachable r =
     (reachable ! u_out r \<and> \<not> reachable ! v_in r \<and>
      (case first_edge_to G (u_out r) (v_in r) of
         None \<Rightarrow> False
       | Some e \<Rightarrow> e_cap e - e_flow e \<le> 1 / 1000000))"

definition tight_entry :: "real \<Rightarrow> edge_rec \<Rightarrow> string \<times> string \<times> real" where
  "tight_entry demand_balance r =
     (rec_from r, rec_to r, min demand_balance (max 0 (rec_hi r - rec_lo r)))"

definition certificate ::
  "graph \<Rightarrow> (string \<rightharpoonup> nat \<times> nat) \<Rightarrow> string list \<Rightarrow> edge_rec list \<Rightarrow> bool list \<Rightarrow> real \<Rightarrow> result" where
  "certificate G oti nodes edge_map reachable demand_balance =
     Infeasible
       (filter (\<lambda>v. reachable ! in_idx oti v) nodes)
       demand_balance
       (sort (filter (tight_node G oti reachable) nodes))
       (map (tight_entry demand_balance) (filter (tight_edge G reachable) edge_map))"

definition flow_entry :: "graph \<Rightarrow> edge_rec \<Rightarrow> string \<times> string \<times> real" where
  "flow_entry G r =
     (let flow_on_edge = (case first_edge_to G (u_out r) (v_in r) of None \<Rightarrow> 0 | Some e \<Rightarrow> e_flow e);
          total_flow = flow_on_edge + rec_lo r
      in (rec_from r, rec_to r, max 0 total_flow))"

definition reconstruct :: "graph \<Rightarrow> edge_rec list \<Rightarrow> (string \<times> string \<times> real) list" where
  "reconstruct G edge_map = map (flow_entry G) (sort_key (\<lambda>r. (rec_from r, rec_to r)) edge_map)"

text \<open>
  The graph builder: everything \<open>run_belts\<close> does between the test of the sink and the
  call of \<open>max_flow\<close>. The result is the error message of the early return, or the graph,
  \<open>edge_map\<close>, \<open>total_supply\<close> and \<open>sum_pos_demands\<close>.
\<close>

definition build ::
  "belts_input \<Rightarrow> string \<Rightarrow> string + (graph \<times> edge_rec list \<times> real \<times> real)" where
  "build d sk =
     (let nodes = node_list d sk;
          oti = orig_to_indices nodes;
          sstar = 2 * length nodes;
          tstar = sstar + 1;
          G0 = fold (add_node_edge oti (node_caps d)) nodes (dinic_init (tstar + 1))
      in case add_user_edges oti (sort_key edge_sort_key (edges_in d))
                \<lparr>bs_graph = G0, bs_edge_map = [], bs_demand = (\<lambda>_. 0)\<rparr> of
           Inl m \<Rightarrow> Inl m
         | Inr st \<Rightarrow>
             (case fold (add_supply (sources d)) (sort (remdups (map fst (sources d))))
                     (0, bs_demand st) of
                (total_supply, dem1) \<Rightarrow>
                  (case fold (connect_node oti sstar tstar (dem1(sk := dem1 sk + total_supply)))
                          nodes (bs_graph st, 0) of
                     (G, sum_pos) \<Rightarrow> Inr (G, bs_edge_map st, total_supply, sum_pos))))"

definition run_belts :: "belts_input \<Rightarrow> result option" where
  "run_belts d =
     (case sink d of
        None \<Rightarrow> Some (Error ''sink not specified'')
      | Some sk \<Rightarrow>
          (case build d sk of
             Inl m \<Rightarrow> Some (Error m)
           | Inr (G, edge_map, total_supply, sum_pos) \<Rightarrow>
               (let nodes = node_list d sk;
                    oti = orig_to_indices nodes;
                    sstar = 2 * length nodes;
                    tstar = sstar + 1
                in Option.bind (max_flow G sstar tstar INF_val)
                     (\<lambda>(G', flowed).
                        if flowed + 1 / 1000000000 < sum_pos then
                          Option.bind (reachable_from G' sstar)
                            (\<lambda>reachable. Some (certificate G' oti nodes edge_map reachable (sum_pos - flowed)))
                        else Some (Ok total_supply (reconstruct G' edge_map))))))"

section \<open>Concrete networks\<close>

definition mk_belt :: "string \<Rightarrow> string \<Rightarrow> real \<Rightarrow> real \<Rightarrow> belt" where
  "mk_belt u v l h = \<lparr>b_from = u, b_to = v, b_lo = Some l, b_hi = Some h\<rparr>"

text \<open>The input of \<open>test_belts_sample_ok\<close> in \<open>tests/test_belts.py\<close>.\<close>

definition sample_network :: belts_input where
  "sample_network =
     \<lparr>nodes_in = [''s1'', ''s2'', ''a'', ''b'', ''c'', ''sink''],
      edges_in = [mk_belt ''s1'' ''a'' 0 1000, mk_belt ''s2'' ''a'' 0 1000,
                  mk_belt ''a'' ''b'' 0 1000, mk_belt ''b'' ''sink'' 0 900,
                  mk_belt ''a'' ''c'' 0 1000, mk_belt ''c'' ''sink'' 0 600],
      sources = [(''s1'', 900), (''s2'', 600)],
      sink = Some ''sink'',
      node_caps = []\<rparr>"

text \<open>
  A circulation forced by a lower bound, with two parallel edges from \<open>x\<close> to \<open>y\<close>:
  \<open>y \<rightarrow> x\<close> must carry 10, which returns over \<open>x \<rightarrow> y\<close>.
\<close>

definition parallel_bounds_network :: belts_input where
  "parallel_bounds_network =
     \<lparr>nodes_in = [],
      edges_in = [mk_belt ''x'' ''y'' 0 20, mk_belt ''x'' ''y'' 1 5, mk_belt ''y'' ''x'' 10 10],
      sources = [],
      sink = Some ''z'',
      node_caps = []\<rparr>"

definition parallel_flow_network :: belts_input where
  "parallel_flow_network =
     \<lparr>nodes_in = [],
      edges_in = [mk_belt ''x'' ''y'' 0 10, mk_belt ''x'' ''y'' 0 20, mk_belt ''y'' ''x'' 15 15],
      sources = [],
      sink = Some ''z'',
      node_caps = []\<rparr>"

text \<open>
  A lower bound of 10 into \<open>u\<close>, whose cap is 5: the cap of \<open>u\<close>, not an edge, is the
  bottleneck.
\<close>

definition capped_node_network :: belts_input where
  "capped_node_network =
     \<lparr>nodes_in = [],
      edges_in = [mk_belt ''x'' ''u'' 10 10, mk_belt ''u'' ''v'' 0 100, mk_belt ''v'' ''x'' 0 100],
      sources = [],
      sink = Some ''v'',
      node_caps = [(''u'', 5)]\<rparr>"

definition negative_cap_network :: belts_input where
  "negative_cap_network =
     \<lparr>nodes_in = [], edges_in = [], sources = [], sink = Some ''a'', node_caps = [(''a'', - 5)]\<rparr>"

text \<open>\<open>G = Dinic(2); G.add_edge(0, 1, 1.0)\<close>.\<close>

definition two_vertex_graph :: graph where
  "two_vertex_graph = add_edge (dinic_init 2) 0 1 1"

text \<open>The sums a test computes over the returned flows: into a node and out of it.\<close>

definition flow_into :: "(string \<times> string \<times> real) list \<Rightarrow> string \<Rightarrow> real" where
  "flow_into flows v = sum_list (map (\<lambda>(a, b, f). f) (filter (\<lambda>(a, b, f). b = v) flows))"

definition flow_out_of :: "(string \<times> string \<times> real) list \<Rightarrow> string \<Rightarrow> real" where
  "flow_out_of flows v = sum_list (map (\<lambda>(a, b, f). f) (filter (\<lambda>(a, b, f). a = v) flows))"





text \<open>The sample network with its nodes and edges listed in another order.\<close>

definition sample_network_permuted :: belts_input where
  "sample_network_permuted =
     \<lparr>nodes_in = [''sink'', ''c'', ''b'', ''a'', ''s2'', ''s1''],
      edges_in = [mk_belt ''c'' ''sink'' 0 600, mk_belt ''a'' ''c'' 0 1000,
                  mk_belt ''b'' ''sink'' 0 900, mk_belt ''a'' ''b'' 0 1000,
                  mk_belt ''s2'' ''a'' 0 1000, mk_belt ''s1'' ''a'' 0 1000],
      sources = [(''s1'', 900), (''s2'', 600)],
      sink = Some ''sink'',
      node_caps = []\<rparr>"


text \<open>No residual edge of the graph has a negative capacity.\<close>

definition caps_nonneg :: "graph \<Rightarrow> bool" where
  "caps_nonneg G = list_all (list_all (\<lambda>e. 0 \<le> e_cap e)) G"

text \<open>An edge with \<open>hi\<close> below \<open>lo\<close> by half the tolerance.\<close>

definition tolerance_network :: belts_input where
  "tolerance_network =
     \<lparr>nodes_in = [], edges_in = [mk_belt ''a'' ''b'' 1 (1 - 1 / 2000000000)], sources = [],
      sink = Some ''b'', node_caps = [(''a'', 7)]\<rparr>"


section \<open>The invariant of the residual graph\<close>









section \<open>Double-precision arithmetic\<close>

text \<open>
  Rounding of a real number to the nearest double (53 significant bits, ties to even),
  for numbers in the range of normal doubles: overflow to infinity and subnormal numbers
  are not represented.
\<close>

function ibits :: "int \<Rightarrow> int" where
  "ibits n = (if n \<le> 0 then 0 else 1 + ibits (n div 2))"
  by pat_completeness auto
termination
  by (relation "measure nat") auto

declare ibits.simps [simp del]

definition ilog2 :: "real \<Rightarrow> int" where
  "ilog2 x = (if 1 \<le> x then ibits \<lfloor>x\<rfloor> - 1 else - ibits (\<lceil>1 / x\<rceil> - 1))"

definition rnd_even :: "real \<Rightarrow> int" where
  "rnd_even m =
     (let f = \<lfloor>m\<rfloor>; d = m - of_int f in
      if d < 1 / 2 then f else if 1 / 2 < d then f + 1 else if even f then f else f + 1)"

definition scale2 :: "real \<Rightarrow> int \<Rightarrow> real" where
  "scale2 x e = (if 0 \<le> e then x * 2 ^ nat e else x / 2 ^ nat (- e))"

definition rnd_pos :: "real \<Rightarrow> real" where
  "rnd_pos x = (let e = ilog2 x - 52 in scale2 (of_int (rnd_even (scale2 x (- e)))) e)"

definition rnd :: "real \<Rightarrow> real" where
  "rnd x = (if x = 0 then 0 else if x < 0 then - rnd_pos (- x) else rnd_pos x)"


section \<open>The program over a given floating-point arithmetic\<close>

text \<open>
  The operations of the program on numbers, as parameters: \<open>fadd\<close> and \<open>fsub\<close> are
  \<open>+\<close> and \<open>-\<close> on floats, \<open>fconv\<close> is \<open>float(x)\<close> on a number of the request (\<open>None\<close>
  when it raises OverflowError), \<open>feps\<close> is the constant \<open>1e-9\<close> and \<open>ftol\<close> the constant
  \<open>1e-6\<close>. Comparison, \<open>min\<close>, \<open>max\<close>, \<open>abs\<close> and unary minus are exact on floats.
\<close>

datatype arith =
  Arith (fadd: "real \<Rightarrow> real \<Rightarrow> real") (fsub: "real \<Rightarrow> real \<Rightarrow> real")
    (fconv: "real \<Rightarrow> real option") (feps: real) (ftol: real)

text \<open>Exact arithmetic, and the arithmetic of doubles.\<close>

definition exact_arith :: arith where
  "exact_arith = Arith (+) (-) Some (1 / 1000000000) (1 / 1000000)"

definition double_arith :: arith where
  "double_arith =
     Arith (\<lambda>x y. rnd (x + y)) (\<lambda>x y. rnd (x - y))
       (\<lambda>x. if \<bar>rnd x\<bar> < 179769313486231590772930519078902473361797697894230657273430081157732675805500963132708477322407536021120113879871393357658789768814416622492847430639474124377767893424865485276302219601246094119453082952085005768838150682342462881473913110540827237163350510684586298239947245938479716304835356329624224137216 then Some (rnd x) else None)
       (rnd (1 / 1000000000)) (rnd (1 / 1000000))"

definition residual_fp :: "arith \<Rightarrow> edge \<Rightarrow> real" where
  "residual_fp ar e = fsub ar (e_cap e) (e_flow e)"

definition bfs_visit_fp :: "arith \<Rightarrow> nat \<Rightarrow> edge \<Rightarrow> int list \<times> nat list \<Rightarrow> int list \<times> nat list" where
  "bfs_visit_fp ar u e = (\<lambda>(level, q).
     if level ! e_to e < 0 \<and> residual_fp ar e > feps ar
     then (level[e_to e := level ! u + 1], q @ [e_to e])
     else (level, q))"

partial_function (option) bfs_loop_fp :: "arith \<Rightarrow> graph \<Rightarrow> int list \<Rightarrow> nat list \<Rightarrow> int list option" where
  "bfs_loop_fp ar adj level q =
     (if q = [] then Some level
      else (let r = fold (bfs_visit_fp ar (hd q)) (adj ! hd q) (level, tl q)
            in bfs_loop_fp ar adj (fst r) (snd r)))"

declare bfs_loop_fp.simps [code]

definition bfs_level_fp :: "arith \<Rightarrow> graph \<Rightarrow> nat \<Rightarrow> nat \<Rightarrow> int list option" where
  "bfs_level_fp ar adj s t = bfs_loop_fp ar adj ((replicate (length adj) (- 1))[s := 0]) [s]"

definition push_flow_fp :: "arith \<Rightarrow> graph \<Rightarrow> nat \<Rightarrow> nat \<Rightarrow> real \<Rightarrow> graph" where
  "push_flow_fp ar adj u i f =
     (let e = adj ! u ! i;
          adj1 = adj[u := (adj ! u)[i := e\<lparr>e_flow := fadd ar (e_flow e) f\<rparr>]];
          r = adj1 ! e_to e ! e_rev e
      in adj1[e_to e := (adj1 ! e_to e)[e_rev e := r\<lparr>e_flow := fsub ar (e_flow r) f\<rparr>]])"

partial_function (option) dfs_loop_fp ::
  "arith \<Rightarrow> graph \<Rightarrow> nat \<Rightarrow> nat \<Rightarrow> real \<Rightarrow> int list \<Rightarrow> nat list \<Rightarrow> nat \<Rightarrow> (graph \<times> nat list \<times> real) option" where
  "dfs_loop_fp ar adj u t pushed level it i =
     (if i < length (adj ! u) then
        (let e = adj ! u ! i in
         if residual_fp ar e > feps ar \<and> level ! e_to e = level ! u + 1 then
           Option.bind
             (if e_to e = t then Some (adj, it, min pushed (residual_fp ar e))
              else dfs_loop_fp ar adj (e_to e) t (min pushed (residual_fp ar e)) level it (it ! e_to e))
             (\<lambda>(adj', it', to_push).
                if to_push > feps ar then Some (push_flow_fp ar adj' u i to_push, it'[u := i], to_push)
                else dfs_loop_fp ar adj' u t pushed level (it'[u := i + 1]) (i + 1))
         else dfs_loop_fp ar adj u t pushed level (it[u := i + 1]) (i + 1))
      else Some (adj, it, 0))"

declare dfs_loop_fp.simps [code]

definition dfs_flow_fp ::
  "arith \<Rightarrow> graph \<Rightarrow> nat \<Rightarrow> nat \<Rightarrow> real \<Rightarrow> int list \<Rightarrow> nat list \<Rightarrow> (graph \<times> nat list \<times> real) option" where
  "dfs_flow_fp ar adj u t pushed level it =
     (if u = t then Some (adj, it, pushed) else dfs_loop_fp ar adj u t pushed level it (it ! u))"

partial_function (option) blocking_loop_fp ::
  "arith \<Rightarrow> graph \<Rightarrow> nat \<Rightarrow> nat \<Rightarrow> real \<Rightarrow> int list \<Rightarrow> nat list \<Rightarrow> real \<Rightarrow> (graph \<times> real \<times> bool) option" where
  "blocking_loop_fp ar adj s t limit level it fl =
     Option.bind (dfs_flow_fp ar adj s t (fsub ar limit fl) level it)
       (\<lambda>(adj', it', pushed).
          if pushed \<le> feps ar then Some (adj', fl, False)
          else if fadd ar (fadd ar fl pushed) (feps ar) \<ge> limit then Some (adj', fadd ar fl pushed, True)
          else blocking_loop_fp ar adj' s t limit level it' (fadd ar fl pushed))"

declare blocking_loop_fp.simps [code]

partial_function (option) max_flow_loop_fp ::
  "arith \<Rightarrow> graph \<Rightarrow> nat \<Rightarrow> nat \<Rightarrow> real \<Rightarrow> real \<Rightarrow> (graph \<times> real) option" where
  "max_flow_loop_fp ar adj s t limit fl =
     Option.bind (bfs_level_fp ar adj s t)
       (\<lambda>level.
          if level ! t < 0 then Some (adj, fl)
          else Option.bind (blocking_loop_fp ar adj s t limit level (replicate (length adj) 0) fl)
            (\<lambda>(adj', fl', returned).
               if returned then Some (adj', fl')
               else max_flow_loop_fp ar adj' s t limit fl'))"

declare max_flow_loop_fp.simps [code]

definition max_flow_fp :: "arith \<Rightarrow> graph \<Rightarrow> nat \<Rightarrow> nat \<Rightarrow> real \<Rightarrow> (graph \<times> real) option" where
  "max_flow_fp ar adj s t limit = max_flow_loop_fp ar adj s t limit 0"

definition reach_visit_fp :: "arith \<Rightarrow> edge \<Rightarrow> bool list \<times> nat list \<Rightarrow> bool list \<times> nat list" where
  "reach_visit_fp ar e = (\<lambda>(vis, q).
     if \<not> vis ! e_to e \<and> residual_fp ar e > feps ar
     then (vis[e_to e := True], q @ [e_to e])
     else (vis, q))"

partial_function (option) reach_loop_fp :: "arith \<Rightarrow> graph \<Rightarrow> bool list \<Rightarrow> nat list \<Rightarrow> bool list option" where
  "reach_loop_fp ar adj vis q =
     (if q = [] then Some vis
      else (let r = fold (reach_visit_fp ar) (adj ! hd q) (vis, tl q)
            in reach_loop_fp ar adj (fst r) (snd r)))"

declare reach_loop_fp.simps [code]

definition reachable_from_fp :: "arith \<Rightarrow> graph \<Rightarrow> nat \<Rightarrow> bool list option" where
  "reachable_from_fp ar adj s = reach_loop_fp ar adj ((replicate (length adj) False)[s := True]) [s]"

subsection \<open>run_belts\<close>

text \<open>
  \<open>float(e.get(key, default))\<close> for a bound of an edge: the default is a float already.
\<close>

definition conv_opt :: "arith \<Rightarrow> real \<Rightarrow> real option \<Rightarrow> real option" where
  "conv_opt ar dflt x = (case x of None \<Rightarrow> Some dflt | Some v \<Rightarrow> fconv ar v)"

text \<open>
  \<open>edge_sort_key(e)\<close>, which converts both bounds: \<open>None\<close> when \<open>float\<close> raises. The
  loop over the sorted edges reads the same four values of each edge again.
\<close>

definition edge_key_fp :: "arith \<Rightarrow> belt \<Rightarrow> (string \<times> string \<times> real \<times> real) option" where
  "edge_key_fp ar e =
     Option.bind (conv_opt ar 0 (b_lo e)) (\<lambda>lo.
       Option.bind (conv_opt ar INF_val (b_hi e)) (\<lambda>hi. Some (b_from e, b_to e, lo, hi)))"

definition node_cap_fp :: "arith \<Rightarrow> (string \<times> real) list \<Rightarrow> string \<Rightarrow> real option" where
  "node_cap_fp ar caps v = (case map_of caps v of Some c \<Rightarrow> fconv ar c | None \<Rightarrow> Some INF_val)"

fun add_node_edges_fp ::
  "arith \<Rightarrow> (string \<rightharpoonup> nat \<times> nat) \<Rightarrow> (string \<times> real) list \<Rightarrow> string list \<Rightarrow> graph \<Rightarrow> graph option" where
  "add_node_edges_fp ar oti caps [] G = Some G"
| "add_node_edges_fp ar oti caps (v # vs) G =
     Option.bind (node_cap_fp ar caps v)
       (\<lambda>c. add_node_edges_fp ar oti caps vs (add_edge G (in_idx oti v) (out_idx oti v) c))"

definition add_user_edge_fp ::
  "arith \<Rightarrow> (string \<rightharpoonup> nat \<times> nat) \<Rightarrow> string \<times> string \<times> real \<times> real \<Rightarrow> builder \<Rightarrow> string + builder" where
  "add_user_edge_fp ar oti k st =
     (case k of (u, v, lo, hi) \<Rightarrow>
      if fadd ar hi (feps ar) < lo then Inl (''edge hi < lo for '' @ u @ ''->'' @ v)
      else
        (let c = max 0 (fsub ar hi lo);
             uo = out_idx oti u;
             vi = in_idx oti v;
             d1 = (bs_demand st)(u := fsub ar (bs_demand st u) lo)
         in Inr \<lparr>bs_graph = add_edge (bs_graph st) uo vi c,
                 bs_edge_map = bs_edge_map st @
                   [\<lparr>rec_from = u, rec_to = v, rec_lo = lo, rec_hi = hi, u_out = uo, v_in = vi\<rparr>],
                 bs_demand = d1(v := fadd ar (d1 v) lo)\<rparr>))"

fun add_user_edges_fp ::
  "arith \<Rightarrow> (string \<rightharpoonup> nat \<times> nat) \<Rightarrow> (string \<times> string \<times> real \<times> real) list \<Rightarrow> builder \<Rightarrow> string + builder" where
  "add_user_edges_fp ar oti [] st = Inr st"
| "add_user_edges_fp ar oti (k # ks) st =
     (case add_user_edge_fp ar oti k st of
        Inl m \<Rightarrow> Inl m
      | Inr st' \<Rightarrow> add_user_edges_fp ar oti ks st')"

fun add_supplies_fp ::
  "arith \<Rightarrow> (string \<times> real) list \<Rightarrow> string list \<Rightarrow> real \<times> (string \<Rightarrow> real) \<Rightarrow> (real \<times> (string \<Rightarrow> real)) option" where
  "add_supplies_fp ar srcs [] acc = Some acc"
| "add_supplies_fp ar srcs (s # ss) acc =
     Option.bind (fconv ar (the (map_of srcs s)))
       (\<lambda>supply. add_supplies_fp ar srcs ss
          (fadd ar (fst acc) supply, (snd acc)(s := fsub ar (snd acc s) supply)))"

definition connect_node_fp ::
  "arith \<Rightarrow> (string \<rightharpoonup> nat \<times> nat) \<Rightarrow> nat \<Rightarrow> nat \<Rightarrow> (string \<Rightarrow> real) \<Rightarrow> string \<Rightarrow> graph \<times> real \<Rightarrow> graph \<times> real" where
  "connect_node_fp ar oti sstar tstar demand v = (\<lambda>(G, sum_pos).
     (let d = demand v in
      if d > feps ar then (add_edge G sstar (in_idx oti v) d, fadd ar sum_pos d)
      else if d < - feps ar then (add_edge G (out_idx oti v) tstar (- d), sum_pos)
      else (G, sum_pos)))"

definition tight_node_fp :: "arith \<Rightarrow> graph \<Rightarrow> (string \<rightharpoonup> nat \<times> nat) \<Rightarrow> bool list \<Rightarrow> string \<Rightarrow> bool" where
  "tight_node_fp ar G oti reachable v =
     (let vi = in_idx oti v in
      if length (G ! vi) = 0 then False
      else (let e = G ! vi ! 0 in reachable ! vi \<and> \<bar>fsub ar (e_cap e) (e_flow e)\<bar> \<le> ftol ar))"

definition tight_edge_fp :: "arith \<Rightarrow> graph \<Rightarrow> bool list \<Rightarrow> edge_rec \<Rightarrow> bool" where
  "tight_edge_fp ar G reachable r =
     (reachable ! u_out r \<and> \<not> reachable ! v_in r \<and>
      (case first_edge_to G (u_out r) (v_in r) of
         None \<Rightarrow> False
       | Some e \<Rightarrow> fsub ar (e_cap e) (e_flow e) \<le> ftol ar))"

definition tight_entry_fp :: "arith \<Rightarrow> real \<Rightarrow> edge_rec \<Rightarrow> string \<times> string \<times> real" where
  "tight_entry_fp ar demand_balance r =
     (rec_from r, rec_to r, min demand_balance (max 0 (fsub ar (rec_hi r) (rec_lo r))))"

definition certificate_fp ::
  "arith \<Rightarrow> graph \<Rightarrow> (string \<rightharpoonup> nat \<times> nat) \<Rightarrow> string list \<Rightarrow> edge_rec list \<Rightarrow> bool list \<Rightarrow> real \<Rightarrow> result" where
  "certificate_fp ar G oti nodes edge_map reachable demand_balance =
     Infeasible
       (filter (\<lambda>v. reachable ! in_idx oti v) nodes)
       demand_balance
       (sort (filter (tight_node_fp ar G oti reachable) nodes))
       (map (tight_entry_fp ar demand_balance) (filter (tight_edge_fp ar G reachable) edge_map))"

definition flow_entry_fp :: "arith \<Rightarrow> graph \<Rightarrow> edge_rec \<Rightarrow> string \<times> string \<times> real" where
  "flow_entry_fp ar G r =
     (let flow_on_edge = (case first_edge_to G (u_out r) (v_in r) of None \<Rightarrow> 0 | Some e \<Rightarrow> e_flow e);
          total_flow = fadd ar flow_on_edge (rec_lo r)
      in (rec_from r, rec_to r, max 0 total_flow))"

definition reconstruct_fp :: "arith \<Rightarrow> graph \<Rightarrow> edge_rec list \<Rightarrow> (string \<times> string \<times> real) list" where
  "reconstruct_fp ar G edge_map =
     map (flow_entry_fp ar G) (sort_key (\<lambda>r. (rec_from r, rec_to r)) edge_map)"

text \<open>
  The builder. \<open>None\<close>: a conversion raised; \<open>Some (Inl m)\<close>: the early return with the
  message \<open>m\<close>; otherwise the graph, \<open>edge_map\<close>, \<open>total_supply\<close> and \<open>sum_pos_demands\<close>.
\<close>

definition build_fp ::
  "arith \<Rightarrow> belts_input \<Rightarrow> string \<Rightarrow> (string + (graph \<times> edge_rec list \<times> real \<times> real)) option" where
  "build_fp ar d sk =
     (let nodes = node_list d sk;
          oti = orig_to_indices nodes;
          sstar = 2 * length nodes;
          tstar = sstar + 1
      in Option.bind (add_node_edges_fp ar oti (node_caps d) nodes (dinic_init (tstar + 1)))
           (\<lambda>G0. Option.bind (those (map (edge_key_fp ar) (edges_in d)))
              (\<lambda>keys.
                 case add_user_edges_fp ar oti (sort keys)
                        \<lparr>bs_graph = G0, bs_edge_map = [], bs_demand = (\<lambda>_. 0)\<rparr> of
                   Inl m \<Rightarrow> Some (Inl m)
                 | Inr st \<Rightarrow>
                     Option.bind
                       (add_supplies_fp ar (sources d) (sort (remdups (map fst (sources d))))
                          (0, bs_demand st))
                       (\<lambda>acc.
                          (let total_supply = fst acc; dem1 = snd acc;
                               r = fold (connect_node_fp ar oti sstar tstar
                                           (dem1(sk := fadd ar (dem1 sk) total_supply)))
                                     nodes (bs_graph st, 0)
                           in Some (Inr (fst r, bs_edge_map st, total_supply, snd r)))))))"

definition run_belts_fp :: "arith \<Rightarrow> belts_input \<Rightarrow> result option" where
  "run_belts_fp ar d =
     (case sink d of
        None \<Rightarrow> Some (Error ''sink not specified'')
      | Some sk \<Rightarrow>
          Option.bind (build_fp ar d sk)
            (\<lambda>b. case b of
               Inl m \<Rightarrow> Some (Error m)
             | Inr (G, edge_map, total_supply, sum_pos) \<Rightarrow>
                 (let nodes = node_list d sk;
                      oti = orig_to_indices nodes;
                      sstar = 2 * length nodes;
                      tstar = sstar + 1
                  in Option.bind (max_flow_fp ar G sstar tstar INF_val)
                       (\<lambda>(G', flowed).
                          if fadd ar flowed (feps ar) < sum_pos then
                            Option.bind (reachable_from_fp ar G' sstar)
                              (\<lambda>reachable. Some (certificate_fp ar G' oti nodes edge_map reachable
                                                   (fsub ar sum_pos flowed)))
                          else Some (Ok total_supply (reconstruct_fp ar G' edge_map))))))"

definition rounding_network :: belts_input where
  "rounding_network =
     \<lparr>nodes_in = [], edges_in = [mk_belt ''a'' ''b'' 2 (1999999999 / 1000000000)], sources = [],
      sink = Some ''b'', node_caps = []\<rparr>"

definition big_supply_network :: belts_input where
  "big_supply_network =
     \<lparr>nodes_in = [], edges_in = [mk_belt ''t'' ''u'' 0 10],
      sources = [(''t'', 9007199254740992), (''u'', 1)],
      sink = Some ''t'', node_caps = []\<rparr>"

definition huge_bound_network :: belts_input where
  "huge_bound_network =
     \<lparr>nodes_in = [], edges_in = [mk_belt ''a'' ''b'' (2 ^ 1024) 1], sources = [],
      sink = Some ''b'', node_caps = []\<rparr>"

section \<open>The sample network\<close>

text \<open>
  Claim C1 says that on the sample network (sources \<open>s1\<close> = 900 and \<open>s2\<close> = 600, all lower
  bounds zero) \<open>run_belts\<close> returns status ok with \<open>max_flow_per_min\<close> 1500. The code
  returns status infeasible: the supplies enter \<open>demand\<close> with the sign that connects the
  super-source to the sink and the sources to the super-sink, so no flow can be routed;
  \<open>cut_reachable\<close> is the sink alone and the deficit is the whole supply.
\<close>

theorem sample_network_infeasible:
  "run_belts sample_network = Some (Infeasible [''sink''] 1500 [] [])"
  by code_simp

section \<open>Reported flows with parallel edges\<close>

text \<open>
  Claim C5 says that every returned edge flow lies within the bounds of its edge. On
  \<open>parallel_bounds_network\<close> the result is ok and the edge \<open>x \<rightarrow> y\<close> with bounds [1, 5] is
  reported with flow 10: its record reads the flow of the first residual edge from \<open>x\<close> to
  \<open>y\<close>, which belongs to the other edge \<open>x \<rightarrow> y\<close>.
\<close>

theorem parallel_edge_flow_exceeds_hi:
  "run_belts parallel_bounds_network =
     Some (Ok 0 [(''x'', ''y'', 9), (''x'', ''y'', 10), (''y'', ''x'', 10)])"
  by code_simp

text \<open>
  Claim C7 says that at every node that is neither a source nor the sink the returned flows
  into the node and out of it are equal. On \<open>parallel_flow_network\<close> the result is ok, and
  at \<open>y\<close> the returned flows sum to 20 inwards and 15 outwards.
\<close>

theorem parallel_edge_breaks_conservation:
  "run_belts parallel_flow_network =
     Some (Ok 0 [(''x'', ''y'', 10), (''x'', ''y'', 10), (''y'', ''x'', 15)]) \<and>
   flow_into [(''x'', ''y'', 10), (''x'', ''y'', 10), (''y'', ''x'', 15)] ''y'' = 20 \<and>
   flow_out_of [(''x'', ''y'', 10), (''x'', ''y'', 10), (''y'', ''x'', 15)] ''y'' = 15"
  by code_simp

section \<open>max_flow with a limit of zero\<close>

lemma two_vertex_bfs: "bfs_level two_vertex_graph 0 1 = Some [0, 1]"
  by code_simp

lemma two_vertex_blocking:
  "blocking_loop two_vertex_graph 0 1 0 [0, 1] (replicate (length two_vertex_graph) 0) 0 =
     Some (two_vertex_graph, 0, False)"
  by code_simp

lemma two_vertex_level: "\<not> ([0, 1::int] ! (1::nat) < 0)"
  by simp

lemma two_vertex_loop_never_returns:
  assumes "max_flow_loop adj s t limit fl = Some y"
  shows "\<not> (adj = two_vertex_graph \<and> s = 0 \<and> t = 1 \<and> limit = 0 \<and> fl = 0)"
proof (rule max_flow_loop.raw_induct
    [where P = "\<lambda>adj s t limit fl y.
        \<not> (adj = two_vertex_graph \<and> s = 0 \<and> t = 1 \<and> limit = 0 \<and> fl = 0)", OF _ assms],
    goal_cases)
  case (1 loop adj s t limit fl y)
  show ?case
  proof
    assume "adj = two_vertex_graph \<and> s = 0 \<and> t = 1 \<and> limit = 0 \<and> fl = 0"
    then have e: "adj = two_vertex_graph" "s = 0" "t = 1" "limit = 0" "fl = 0"
      by blast+
    have "loop two_vertex_graph 0 1 0 0 = Some y"
      using 1(2) unfolding e two_vertex_bfs
      by (simp only: two_vertex_level two_vertex_blocking Option.bind.simps if_False case_prod_conv)
    from 1(1)[OF this] show False
      by simp
  qed
qed

text \<open>
  Claim C8 says that \<open>max_flow\<close> terminates for every non-negative limit. With limit 0 on
  the graph of one edge from 0 to 1 of capacity 1 it does not return: the level graph
  reaches \<open>t\<close>, \<open>dfs_flow\<close> is called with \<open>pushed = 0\<close> and returns 0, the inner loop breaks,
  and the outer loop starts again on the same state.
\<close>

theorem max_flow_zero_limit_diverges:
  "max_flow two_vertex_graph 0 1 0 = None"
proof (cases "max_flow_loop two_vertex_graph 0 1 0 0")
  case None
  then show ?thesis by (simp add: max_flow_def)
next
  case (Some y)
  from two_vertex_loop_never_returns[OF this] show ?thesis by simp
qed

section \<open>Counterexamples\<close>

text \<open>
  Claim C2, as stated, fails on \<open>capped_node_network\<close>: the result is infeasible with
  \<open>cut_reachable = [u]\<close>; the edge \<open>u \<rightarrow> v\<close> leaves the cut, and \<open>tight_edges\<close> is empty
  (the node \<open>u\<close> is reported in \<open>tight_nodes\<close> instead).
\<close>

theorem cut_edge_not_tight_counterexample:
  "run_belts capped_node_network = Some (Infeasible [''u''] 5 [''u''] []) \<and>
   mk_belt ''u'' ''v'' 0 100 \<in> set (edges_in capped_node_network) \<and>
   ''u'' \<in> set [''u''] \<and> ''v'' \<notin> set [''u'']"
  by code_simp


text \<open>
  Claim C10, as stated, fails for a negative node cap: the builder gives the internal edge
  of node \<open>a\<close> the declared cap \<open>-5\<close>.
\<close>

theorem negative_node_cap_counterexample:
  "build negative_cap_network ''a'' =
     Inr ([[\<lparr>e_to = 1, e_rev = 0, e_cap = - 5, e_flow = 0\<rparr>],
           [\<lparr>e_to = 0, e_rev = 0, e_cap = 0, e_flow = 0\<rparr>], [], []], [], 0, 0)"
  by code_simp

section \<open>Request errors\<close>











section \<open>The value of a feasible result\<close>


lemma build_InrE:
  assumes "build d sk = Inr (G, em, ts, sp)"
  obtains st dem1 where
    "add_user_edges (orig_to_indices (node_list d sk)) (sort_key edge_sort_key (edges_in d))
       \<lparr>bs_graph = fold (add_node_edge (orig_to_indices (node_list d sk)) (node_caps d))
                     (node_list d sk) (dinic_init (2 * length (node_list d sk) + 1 + 1)),
        bs_edge_map = [], bs_demand = (\<lambda>_. 0)\<rparr> = Inr st"
    "fold (add_supply (sources d)) (sort (remdups (map fst (sources d)))) (0, bs_demand st) = (ts, dem1)"
    "fold (connect_node (orig_to_indices (node_list d sk)) (2 * length (node_list d sk))
             (2 * length (node_list d sk) + 1) (dem1(sk := dem1 sk + ts)))
       (node_list d sk) (bs_graph st, 0) = (G, sp)"
    "em = bs_edge_map st"
proof -
  let ?oti = "orig_to_indices (node_list d sk)"
  let ?n = "2 * length (node_list d sk)"
  let ?st0 = "\<lparr>bs_graph = fold (add_node_edge ?oti (node_caps d))
                     (node_list d sk) (dinic_init (?n + 1 + 1)),
        bs_edge_map = [], bs_demand = (\<lambda>_. 0)\<rparr>"
  show thesis
  proof (cases "add_user_edges ?oti (sort_key edge_sort_key (edges_in d)) ?st0")
    case (Inl m)
    with assms show ?thesis
      unfolding build_def Let_def by simp
  next
    case (Inr st)
    obtain ts' dem1 where f: "fold (add_supply (sources d)) (sort (remdups (map fst (sources d))))
        (0, bs_demand st) = (ts', dem1)"
      by (metis surj_pair)
    obtain G2 sp2 where g: "fold (connect_node ?oti ?n (?n + 1) (dem1(sk := dem1 sk + ts')))
       (node_list d sk) (bs_graph st, 0) = (G2, sp2)"
      by (metis surj_pair)
    from assms Inr f g have "G = G2 \<and> em = bs_edge_map st \<and> ts = ts' \<and> sp = sp2"
      unfolding build_def Let_def by simp
    with Inr f g that show ?thesis
      by blast
  qed
qed






section \<open>Determinism\<close>

lemma sort_remdups_cong:
  fixes xs ys :: "'a::linorder list"
  assumes "set xs = set ys"
  shows "sort (remdups xs) = sort (remdups ys)"
  using assms sorted_list_of_set_sort_remdups[of xs] sorted_list_of_set_sort_remdups[of ys]
  by simp

lemma map_sort_key_eq:
  fixes f :: "'a \<Rightarrow> 'b::linorder"
  assumes "mset xs = mset ys"
  shows "map f (sort_key f xs) = map f (sort_key f ys)"
proof -
  have "map f (sort_key f xs) = sort (map f xs)" for xs
    by (rule sym, rule properties_for_sort) simp_all
  moreover have "sort (map f xs) = sort (map f ys)"
    by (rule properties_for_sort) (simp_all add: assms)
  ultimately show ?thesis by simp
qed

lemma add_user_edge_key_cong:
  "edge_sort_key e = edge_sort_key e' \<Longrightarrow> add_user_edge oti e st = add_user_edge oti e' st"
  by (simp add: edge_sort_key_def add_user_edge_def)

lemma add_user_edges_key_cong:
  "map edge_sort_key es = map edge_sort_key es' \<Longrightarrow>
   add_user_edges oti es st = add_user_edges oti es' st"
proof (induction es arbitrary: es' st)
  case Nil
  then show ?case by simp
next
  case (Cons e es)
  then obtain e' es'' where e: "es' = e' # es''" "edge_sort_key e = edge_sort_key e'"
      "map edge_sort_key es = map edge_sort_key es''"
    by (cases es') auto
  then show ?case
    using Cons.IH[of es''] add_user_edge_key_cong[of e e' oti st]
    by (simp split: sum.splits)
qed

lemma node_list_permutation:
  assumes "mset (edges_in d') = mset (edges_in d)" "mset (nodes_in d') = mset (nodes_in d)"
    "sources d' = sources d"
  shows "node_list d' sk = node_list d sk"
proof -
  have "set (edges_in d') = set (edges_in d)" "set (nodes_in d') = set (nodes_in d)"
    using assms by (metis set_mset_mset)+
  then show ?thesis
    unfolding node_list_def using assms(3)
    by (intro sort_remdups_cong) simp
qed

lemma build_permutation:
  assumes "mset (edges_in d') = mset (edges_in d)" "mset (nodes_in d') = mset (nodes_in d)"
    "sources d' = sources d" "node_caps d' = node_caps d"
  shows "build d' sk = build d sk"
proof -
  have n: "node_list d' sk = node_list d sk"
    using assms(1,2,3) by (rule node_list_permutation)
  have "add_user_edges oti (sort_key edge_sort_key (edges_in d')) st =
        add_user_edges oti (sort_key edge_sort_key (edges_in d)) st" for oti st
    by (rule add_user_edges_key_cong) (rule map_sort_key_eq, rule assms(1))
  then show ?thesis
    unfolding build_def n assms(3,4) by simp
qed

text \<open>
  Claim C6: listing the same edges and the same nodes in another order (the other fields
  unchanged) gives the same result object, hence the same serialized output.
\<close>

theorem run_belts_permutation:
  assumes "mset (edges_in d') = mset (edges_in d)" "mset (nodes_in d') = mset (nodes_in d)"
    "sources d' = sources d" "sink d' = sink d" "node_caps d' = node_caps d"
  shows "run_belts d' = run_belts d"
proof (cases "sink d")
  case None
  then show ?thesis
    using assms(4) by (simp add: run_belts_def)
next
  case (Some sk)
  have n: "node_list d' sk = node_list d sk"
    using assms(1,2,3) by (rule node_list_permutation)
  have b: "build d' sk = build d sk"
    using assms(1,2,3,5) by (rule build_permutation)
  have k: "sink d' = Some sk"
    using Some assms(4) by simp
  show ?thesis
    unfolding run_belts_def by (simp only: k Some option.case n b)
qed

theorem run_belts_permutation_witness:
  "mset (edges_in sample_network_permuted) = mset (edges_in sample_network) \<and>
   mset (nodes_in sample_network_permuted) = mset (nodes_in sample_network) \<and>
   run_belts sample_network_permuted = run_belts sample_network"
proof -
  have e: "mset (edges_in sample_network_permuted) = mset (edges_in sample_network)"
    by code_simp
  have n: "mset (nodes_in sample_network_permuted) = mset (nodes_in sample_network)"
    by code_simp
  have s: "sources sample_network_permuted = sources sample_network"
    by (simp add: sample_network_permuted_def sample_network_def)
  have k: "sink sample_network_permuted = sink sample_network"
    by (simp add: sample_network_permuted_def sample_network_def)
  have c: "node_caps sample_network_permuted = node_caps sample_network"
    by (simp add: sample_network_permuted_def sample_network_def)
  have "run_belts sample_network_permuted = run_belts sample_network"
    by (rule run_belts_permutation[OF e n s k c])
  with e n show ?thesis by simp
qed

section \<open>Capacities of the residual edges the builder makes\<close>

lemma EPS_pos: "0 < EPS"
  by (simp add: EPS_def)

lemma caps_nonneg_update:
  assumes "caps_nonneg G" "u < length G \<Longrightarrow> list_all (\<lambda>e. 0 \<le> e_cap e) es"
  shows "caps_nonneg (G[u := es])"
proof (cases "u < length G")
  case True
  with assms show ?thesis
    unfolding caps_nonneg_def list_all_iff
    by (auto dest!: subsetD[OF set_update_subset_insert])
next
  case False
  then have "G[u := es] = G" by (simp add: not_less list_update_beyond)
  with assms(1) show ?thesis by simp
qed

lemma caps_nonneg_nth:
  "caps_nonneg G \<Longrightarrow> u < length G \<Longrightarrow> list_all (\<lambda>e. 0 \<le> e_cap e) (G ! u)"
  unfolding caps_nonneg_def list_all_iff by (metis nth_mem)

lemma add_edge_caps_nonneg:
  assumes "caps_nonneg G" "0 \<le> c"
  shows "caps_nonneg (add_edge G u v c)"
proof -
  let ?a = "new_edge v (length (G ! v)) c"
  let ?b = "new_edge u (length (G ! u)) 0"
  let ?G1 = "G[u := G ! u @ [?a]]"
  have a: "0 \<le> e_cap ?a" and b: "0 \<le> e_cap ?b"
    using assms(2) by (simp_all add: new_edge_def)
  have 1: "caps_nonneg ?G1"
    by (rule caps_nonneg_update) (simp_all add: assms(1) caps_nonneg_nth a)
  have "caps_nonneg (?G1[v := ?G1 ! v @ [?b]])"
    by (rule caps_nonneg_update[OF 1]) (use caps_nonneg_nth[OF 1] b in simp)
  then show ?thesis
    by (simp add: add_edge_def Let_def)
qed

lemma dinic_init_caps_nonneg: "caps_nonneg (dinic_init n)"
  by (simp add: caps_nonneg_def dinic_init_def list_all_iff)

lemma node_cap_nonneg:
  assumes "\<forall>(v, c)\<in>set caps. 0 \<le> c"
  shows "0 \<le> node_cap caps v"
proof (cases "map_of caps v")
  case None
  then show ?thesis by (simp add: node_cap_def INF_val_def)
next
  case (Some c)
  then have "(v, c) \<in> set caps" by (rule map_of_SomeD)
  with assms Some show ?thesis by (auto simp: node_cap_def)
qed

lemma fold_add_node_edge_caps_nonneg:
  assumes "\<forall>(v, c)\<in>set caps. 0 \<le> c"
  shows "caps_nonneg G \<Longrightarrow> caps_nonneg (fold (add_node_edge oti caps) vs G)"
  by (induction vs arbitrary: G)
     (simp_all add: add_node_edge_def add_edge_caps_nonneg node_cap_nonneg[OF assms])

lemma add_user_edge_caps_nonneg:
  "add_user_edge oti e st = Inr st' \<Longrightarrow> caps_nonneg (bs_graph st) \<Longrightarrow> caps_nonneg (bs_graph st')"
  by (auto simp: add_user_edge_def Let_def add_edge_caps_nonneg split: if_splits)

lemma add_user_edges_caps_nonneg:
  "add_user_edges oti es st = Inr st' \<Longrightarrow> caps_nonneg (bs_graph st) \<Longrightarrow> caps_nonneg (bs_graph st')"
proof (induction es arbitrary: st)
  case Nil
  then show ?case by simp
next
  case (Cons e es)
  then show ?case
    by (auto split: sum.splits dest: add_user_edge_caps_nonneg)
qed

lemma connect_node_caps_nonneg:
  "caps_nonneg (fst acc) \<Longrightarrow> caps_nonneg (fst (connect_node oti s t dem v acc))"
  using EPS_pos by (cases acc) (auto simp: connect_node_def Let_def add_edge_caps_nonneg)

lemma fold_connect_node_caps_nonneg:
  "caps_nonneg (fst acc) \<Longrightarrow> caps_nonneg (fst (fold (connect_node oti s t dem) vs acc))"
  by (induction vs arbitrary: acc) (simp_all add: connect_node_caps_nonneg)

lemma build_caps_nonneg:
  assumes "build d sk = Inr (G, em, ts, sp)" "\<forall>(v, c)\<in>set (node_caps d). 0 \<le> c"
  shows "caps_nonneg G"
  using assms(1)
proof (cases rule: build_InrE)
  case (1 st dem1)
  have "caps_nonneg (bs_graph st)"
    using add_user_edges_caps_nonneg[OF 1(1)]
      fold_add_node_edge_caps_nonneg[OF assms(2) dinic_init_caps_nonneg]
    by simp
  then show ?thesis
    using fold_connect_node_caps_nonneg[of "(bs_graph st, 0)"] 1(3) by (metis fst_conv)
qed

text \<open>
  Claim C10, amended: an edge with \<open>lo - 1e-9 \<le> hi < lo\<close> is accepted by the builder and
  its residual edge gets the capacity \<open>max(0, hi - lo) = 0\<close>; and when every declared node
  cap is non-negative, no residual edge of the graph the builder returns has a negative
  capacity (the internal edge of a node takes the declared cap as it is).
\<close>

theorem builder_capacities:
  "(lo_of e - EPS \<le> hi_of e \<and> hi_of e < lo_of e \<longrightarrow>
      (\<exists>st'. add_user_edge oti e st = Inr st' \<and>
         bs_graph st' =
           add_edge (bs_graph st) (out_idx oti (b_from e)) (in_idx oti (b_to e)) 0)) \<and>
   (build d sk = Inr (G, em, ts, sp) \<and> (\<forall>(v, c)\<in>set (node_caps d). 0 \<le> c) \<longrightarrow>
      caps_nonneg G)"
  by (auto simp: add_user_edge_def Let_def build_caps_nonneg)

theorem builder_capacities_witness:
  "build tolerance_network ''b'' =
     Inr ([[\<lparr>e_to = 1, e_rev = 0, e_cap = 7, e_flow = 0\<rparr>],
           [\<lparr>e_to = 0, e_rev = 0, e_cap = 0, e_flow = 0\<rparr>,
            \<lparr>e_to = 2, e_rev = 1, e_cap = 0, e_flow = 0\<rparr>,
            \<lparr>e_to = 5, e_rev = 0, e_cap = 1, e_flow = 0\<rparr>],
           [\<lparr>e_to = 3, e_rev = 0, e_cap = INF_val, e_flow = 0\<rparr>,
            \<lparr>e_to = 1, e_rev = 1, e_cap = 0, e_flow = 0\<rparr>,
            \<lparr>e_to = 4, e_rev = 0, e_cap = 0, e_flow = 0\<rparr>],
           [\<lparr>e_to = 2, e_rev = 0, e_cap = 0, e_flow = 0\<rparr>],
           [\<lparr>e_to = 2, e_rev = 2, e_cap = 1, e_flow = 0\<rparr>],
           [\<lparr>e_to = 1, e_rev = 2, e_cap = 0, e_flow = 0\<rparr>]],
          [\<lparr>rec_from = ''a'', rec_to = ''b'', rec_lo = 1, rec_hi = 1 - 1 / 2000000000,
            u_out = 1, v_in = 2\<rparr>], 0, 1) \<and>
   caps_nonneg (fst (projr (build tolerance_network ''b'')))"
proof -
  let ?G = "[[\<lparr>e_to = 1, e_rev = 0, e_cap = 7, e_flow = 0\<rparr>],
           [\<lparr>e_to = 0, e_rev = 0, e_cap = 0, e_flow = 0\<rparr>,
            \<lparr>e_to = 2, e_rev = 1, e_cap = 0, e_flow = 0\<rparr>,
            \<lparr>e_to = 5, e_rev = 0, e_cap = 1, e_flow = 0\<rparr>],
           [\<lparr>e_to = 3, e_rev = 0, e_cap = INF_val, e_flow = 0\<rparr>,
            \<lparr>e_to = 1, e_rev = 1, e_cap = 0, e_flow = 0\<rparr>,
            \<lparr>e_to = 4, e_rev = 0, e_cap = 0, e_flow = 0\<rparr>],
           [\<lparr>e_to = 2, e_rev = 0, e_cap = 0, e_flow = 0\<rparr>],
           [\<lparr>e_to = 2, e_rev = 2, e_cap = 1, e_flow = 0\<rparr>],
           [\<lparr>e_to = 1, e_rev = 2, e_cap = 0, e_flow = 0\<rparr>]]"
  let ?em = "[\<lparr>rec_from = ''a'', rec_to = ''b'', rec_lo = 1, rec_hi = 1 - 1 / 2000000000,
            u_out = 1, v_in = 2\<rparr>]"
  have b: "build tolerance_network ''b'' = Inr (?G, ?em, 0, 1)"
    by code_simp
  have c: "\<forall>(v, c)\<in>set (node_caps tolerance_network). 0 \<le> c"
    by (simp add: tolerance_network_def)
  from builder_capacities[of _ _ _ tolerance_network "''b''" ?G ?em 0 1] b c
  have "caps_nonneg ?G" by blast
  with b show ?thesis by simp
qed

section \<open>Flow pushes keep the invariant of the residual graph\<close>

































end
